theory Spec2Isabelle
  imports Complex_Main
begin

section \<open>Data model\<close>

text \<open>
  The records follow the TypeScript types of the action. An optional field
  (\<^verbatim>\<open>string | undefined\<close>) is an \<open>option\<close>. Several records share field names
  (\<open>success\<close>, \<open>cacheKey\<close>, \<open>error\<close>, \<open>digest\<close>, \<open>platform\<close>); the unqualified name
  always belongs to \<open>ServiceResult\<close>, which is declared last, and the other records
  are read through qualified names such as \<open>CacheOperationResult.success\<close>.
\<close>

text \<open>\<^verbatim>\<open>DockerImageMetadata\<close> and \<^verbatim>\<open>DockerImageManifest\<close> of docker-command.ts.\<close>

record DockerImageMetadata =
  Size :: int

record DockerImageManifest =
  digest :: "string option"

text \<open>\<^verbatim>\<open>CacheOperationResult\<close> as declared in cache.d.ts.\<close>

record CacheOperationResult =
  success :: bool
  cacheKey :: "string option"
  error :: "string option"

text \<open>
  \<^verbatim>\<open>ComposeService\<close> of docker-compose-file.ts. The field \<^verbatim>\<open>image\<close> is called
  \<open>image_str\<close> here, since \<open>image\<close> is the image of a set under a function in HOL.
\<close>

record ComposeService =
  image_str :: string
  platform :: "string option"

text \<open>\<^verbatim>\<open>ImageOperationResult\<close> and \<^verbatim>\<open>ServiceResult\<close> of docker-compose-service-processing.ts.\<close>

record ImageOperationResult =
  success :: bool
  imageSize :: "int option"
  error :: "string option"

record ServiceResult =
  success :: bool
  restoredFromCache :: bool
  imageName :: string
  cacheKey :: string
  digest :: "string option"
  platform :: "string option"
  error :: "string option"
  imageSize :: "int option"

text \<open>
  \<^verbatim>\<open>TimedServiceResult\<close> is imported from action-outputs; \<^verbatim>\<open>run\<close> builds it by
  spreading a \<^verbatim>\<open>ServiceResult\<close> and adding the two timing fields.
\<close>

record TimedServiceResult = ServiceResult +
  processingDuration :: real
  humanReadableDuration :: string

section \<open>JavaScript values\<close>

text \<open>
  Truthiness of a \<^verbatim>\<open>string | undefined\<close>: \<^verbatim>\<open>undefined\<close> and the empty string are
  falsy. \<open>template_str\<close> is what a template literal prints for such a value.
\<close>

definition truthy :: "string option \<Rightarrow> bool" where
  "truthy v = (case v of None \<Rightarrow> False | Some s \<Rightarrow> s \<noteq> [])"

definition template_str :: "string option \<Rightarrow> string" where
  "template_str v = (case v of None \<Rightarrow> ''undefined'' | Some s \<Rightarrow> s)"

text \<open>Optional chaining \<^verbatim>\<open>manifest?.digest\<close> on a \<^verbatim>\<open>DockerImageManifest | undefined\<close>.\<close>

definition optional_digest :: "DockerImageManifest option \<Rightarrow> string option" where
  "optional_digest manifest =
     (case manifest of None \<Rightarrow> None | Some m \<Rightarrow> DockerImageManifest.digest m)"

text \<open>
  \<^verbatim>\<open>String.prototype.split\<close> with a one-character separator: the pieces between the
  occurrences of the separator, so that a string without it is returned whole and the
  empty string gives one empty piece.
\<close>

fun split :: "char \<Rightarrow> string \<Rightarrow> string list" where
  "split c [] = [[]]"
| "split c (x # xs) =
     (if x = c then [] # split c xs
      else (case split c xs of [] \<Rightarrow> [[x]] | p # ps \<Rightarrow> (x # p) # ps))"

section \<open>Effects: the gateway calls and the log\<close>

text \<open>
  Every \<^verbatim>\<open>await\<close> of processService is a call to the image runtime
  (docker-command.ts), to the cache store (cache.ts) or, in \<^verbatim>\<open>run\<close>, a reading of
  the clock. A call is a \<open>request\<close>; what the outside world returns is a \<open>response\<close>.
  The functions of docker-command.ts catch every error and return \<^verbatim>\<open>false\<close> or
  \<^verbatim>\<open>undefined\<close>, so a response is always a value.
\<close>

datatype level = Info | Warning | Debug

datatype request =
    InspectImageRemote string
  | PullImage string "string option"
  | SaveImageToTar string string
  | LoadImageFromTar string
  | InspectImageLocal string
  | RestoreFromCache "string list" string "string list"
  | SaveToCache "string list" string
  | SaveManifestToCache DockerImageManifest string string
  | ReadManifestFromFile string
  | PerformanceNow

datatype response =
    RBool bool
  | RManifest "DockerImageManifest option"
  | RMetadata "DockerImageMetadata option"
  | RCache CacheOperationResult
  | RTime real

text \<open>The declared result type of each call.\<close>

fun answers :: "request \<Rightarrow> response \<Rightarrow> bool" where
  "answers (InspectImageRemote n) (RManifest m) = True"
| "answers (PullImage n p) (RBool b) = True"
| "answers (SaveImageToTar n p) (RBool b) = True"
| "answers (LoadImageFromTar p) (RBool b) = True"
| "answers (InspectImageLocal n) (RMetadata i) = True"
| "answers (RestoreFromCache ps k rks) (RCache c) = True"
| "answers (SaveToCache ps k) (RCache c) = True"
| "answers (SaveManifestToCache m p k) (RBool b) = True"
| "answers (ReadManifestFromFile p) (RManifest m) = True"
| "answers PerformanceNow (RTime t) = True"
| "answers q r = False"

text \<open>
  An asynchronous computation is a tree: it has returned (\<open>Done\<close>), it writes a line to
  the log and goes on (\<open>Log\<close>), or it waits for the response to a request and goes on
  with it (\<open>Call\<close>). \<open>await\<close> runs a computation and passes its result on, as
  \<^verbatim>\<open>const x = await f(...)\<close> does.
\<close>

datatype 'a proc =
    Done 'a
  | Log level string "'a proc"
  | Call request "response \<Rightarrow> 'a proc"

primrec await :: "'a proc \<Rightarrow> ('a \<Rightarrow> 'b proc) \<Rightarrow> 'b proc" where
  "await (Done a) f = f a"
| "await (Log l m p) f = Log l m (await p f)"
| "await (Call q k) f = Call q (\<lambda>r. await (k r) f)"

text \<open>
  The projections read a response at the type the call declares. Their last equations
  are never reached in a run: \<open>feed\<close> below accepts a response only if it \<open>answers\<close>
  the request.
\<close>

fun the_bool :: "response \<Rightarrow> bool" where
  "the_bool (RBool b) = b"
| "the_bool r = False"

fun the_manifest :: "response \<Rightarrow> DockerImageManifest option" where
  "the_manifest (RManifest m) = m"
| "the_manifest r = None"

fun the_metadata :: "response \<Rightarrow> DockerImageMetadata option" where
  "the_metadata (RMetadata i) = i"
| "the_metadata r = None"

fun the_cache :: "response \<Rightarrow> CacheOperationResult" where
  "the_cache (RCache c) = c"
| "the_cache r = \<lparr>CacheOperationResult.success = False, cacheKey = None, error = None\<rparr>"

fun the_time :: "response \<Rightarrow> real" where
  "the_time (RTime t) = t"
| "the_time r = 0"

text \<open>
  The gateway functions, each one request. Parameters that the source calls
  \<^verbatim>\<open>imageName\<close>, \<^verbatim>\<open>platform\<close> or \<^verbatim>\<open>cacheKey\<close> are \<open>name\<close>, \<open>plat\<close> and \<open>key\<close>
  here, the former being field names of the records.
\<close>

definition inspectImageRemote :: "string \<Rightarrow> DockerImageManifest option proc" where
  "inspectImageRemote name = Call (InspectImageRemote name) (\<lambda>r. Done (the_manifest r))"

definition pullImage :: "string \<Rightarrow> string option \<Rightarrow> bool proc" where
  "pullImage name plat = Call (PullImage name plat) (\<lambda>r. Done (the_bool r))"

definition saveImageToTar :: "string \<Rightarrow> string \<Rightarrow> bool proc" where
  "saveImageToTar name outputPath =
     Call (SaveImageToTar name outputPath) (\<lambda>r. Done (the_bool r))"

definition loadImageFromTar :: "string \<Rightarrow> bool proc" where
  "loadImageFromTar tarPath = Call (LoadImageFromTar tarPath) (\<lambda>r. Done (the_bool r))"

definition inspectImageLocal :: "string \<Rightarrow> DockerImageMetadata option proc" where
  "inspectImageLocal name = Call (InspectImageLocal name) (\<lambda>r. Done (the_metadata r))"

definition restoreFromCache :: "string list \<Rightarrow> string \<Rightarrow> string list \<Rightarrow> CacheOperationResult proc" where
  "restoreFromCache targetFilePaths key restoreKeys =
     Call (RestoreFromCache targetFilePaths key restoreKeys) (\<lambda>r. Done (the_cache r))"

definition saveToCache :: "string list \<Rightarrow> string \<Rightarrow> CacheOperationResult proc" where
  "saveToCache targetFilePaths key =
     Call (SaveToCache targetFilePaths key) (\<lambda>r. Done (the_cache r))"

definition saveManifestToCache :: "DockerImageManifest \<Rightarrow> string \<Rightarrow> string \<Rightarrow> bool proc" where
  "saveManifestToCache manifest manifestPath manifestCacheKey =
     Call (SaveManifestToCache manifest manifestPath manifestCacheKey) (\<lambda>r. Done (the_bool r))"

definition readManifestFromFile :: "string \<Rightarrow> DockerImageManifest option proc" where
  "readManifestFromFile manifestPath =
     Call (ReadManifestFromFile manifestPath) (\<lambda>r. Done (the_manifest r))"

definition performance_now :: "real proc" where
  "performance_now = Call PerformanceNow (\<lambda>r. Done (the_time r))"

text \<open>\<^verbatim>\<open>core.info\<close>, \<^verbatim>\<open>core.warning\<close> and \<^verbatim>\<open>core.debug\<close>.\<close>

definition core_info :: "string \<Rightarrow> unit proc" where
  "core_info message = Log Info message (Done ())"

definition core_warning :: "string \<Rightarrow> unit proc" where
  "core_warning message = Log Warning message (Done ())"

definition core_debug :: "string \<Rightarrow> unit proc" where
  "core_debug message = Log Debug message (Done ())"

text \<open>
  \<^verbatim>\<open>if (c) { log(...) }\<close> followed by the rest of the function: the statement runs
  only under its guard.
\<close>

definition guarded :: "bool \<Rightarrow> unit proc \<Rightarrow> unit proc" where
  "guarded c p = (if c then p else Done ())"

section \<open>Cache keys and paths\<close>

text \<open>
  processService imports \<^verbatim>\<open>generateCacheKey\<close>, \<^verbatim>\<open>generateCacheKeyPrefix\<close>,
  \<^verbatim>\<open>generateManifestCacheKey\<close>, \<^verbatim>\<open>generateTarPath\<close> and \<^verbatim>\<open>generateManifestPath\<close> from
  cache.ts, of which only the declarations (cache.d.ts) are among the sources. The
  processor takes them as a parameter, at their declared types: the arguments are
  the key prefix (keys only), the image name, the tag, the platform and the digest.
\<close>

record cache_module =
  generateCacheKey :: "string \<Rightarrow> string \<Rightarrow> string \<Rightarrow> string option \<Rightarrow> string option \<Rightarrow> string"
  generateCacheKeyPrefix :: "string \<Rightarrow> string \<Rightarrow> string \<Rightarrow> string option \<Rightarrow> string"
  generateManifestCacheKey :: "string \<Rightarrow> string \<Rightarrow> string \<Rightarrow> string option \<Rightarrow> string option \<Rightarrow> string"
  generateTarPath :: "string \<Rightarrow> string \<Rightarrow> string option \<Rightarrow> string option \<Rightarrow> string"
  generateManifestPath :: "string \<Rightarrow> string \<Rightarrow> string option \<Rightarrow> string option \<Rightarrow> string"

section \<open>The per-image processor\<close>

text \<open>\<^verbatim>\<open>pullAndCacheImage\<close> (docker-compose-service-processing.ts, lines 55 to 107).\<close>

definition pullAndCacheImage ::
  "string \<Rightarrow> string option \<Rightarrow> string \<Rightarrow> string \<Rightarrow> string \<Rightarrow> string \<Rightarrow> string
     \<Rightarrow> DockerImageManifest \<Rightarrow> ImageOperationResult proc" where
  "pullAndCacheImage completeImageName platformString imageCacheKey manifestCacheKey
       imageTarPath manifestPath imageDigest manifest =
     await (pullImage completeImageName platformString) (\<lambda>pullSuccess.
     if \<not> pullSuccess then
       Done \<lparr>ImageOperationResult.success = False, imageSize = None,
             error = Some (''Failed to pull image: '' @ completeImageName)\<rparr>
     else
     await (inspectImageRemote completeImageName) (\<lambda>newManifest.
     let newImageDigest = optional_digest newManifest in
     if newImageDigest \<noteq> Some imageDigest then
       Done \<lparr>ImageOperationResult.success = False, imageSize = None,
             error = Some (''Digest mismatch for '' @ completeImageName @ '': expected ''
                           @ imageDigest @ '', got '' @ template_str newImageDigest)\<rparr>
     else
     await (saveImageToTar completeImageName imageTarPath) (\<lambda>saveSuccess.
     if \<not> saveSuccess then
       Done \<lparr>ImageOperationResult.success = False, imageSize = None,
             error = Some (''Failed to save image to tar: '' @ completeImageName)\<rparr>
     else
     await (saveManifestToCache manifest manifestPath manifestCacheKey) (\<lambda>_.
     await (saveToCache [imageTarPath] imageCacheKey) (\<lambda>cacheResult.
     await (guarded (CacheOperationResult.success cacheResult)
              (core_info (''Cached '' @ completeImageName @ '' with key '' @ imageCacheKey))) (\<lambda>_.
     await (inspectImageLocal completeImageName) (\<lambda>inspectInfo.
     Done \<lparr>ImageOperationResult.success = True,
           imageSize = map_option Size inspectInfo, error = None\<rparr>)))))))"

text \<open>\<^verbatim>\<open>tryRestoreFromCacheWithoutDigest\<close> (lines 120 to 164).\<close>

definition tryRestoreFromCacheWithoutDigest ::
  "cache_module \<Rightarrow> string \<Rightarrow> string \<Rightarrow> string \<Rightarrow> string option \<Rightarrow> string
     \<Rightarrow> ServiceResult option proc" where
  "tryRestoreFromCacheWithoutDigest cm completeImageName imageNameWithoutTag imageTag plat
       cacheKeyPrefix =
     (let cacheKeyPrefixWithoutDigest =
            generateCacheKeyPrefix cm cacheKeyPrefix imageNameWithoutTag imageTag plat;
          fallbackTarPath = generateTarPath cm imageNameWithoutTag imageTag plat (Some ''fallback'')
      in
      await (restoreFromCache [fallbackTarPath] (cacheKeyPrefixWithoutDigest @ ''-fallback'')
               [cacheKeyPrefixWithoutDigest]) (\<lambda>cacheResult.
      if \<not> CacheOperationResult.success cacheResult then Done None
      else
      await (loadImageFromTar fallbackTarPath) (\<lambda>loadSuccess.
      if \<not> loadSuccess then
        await (core_debug (''Failed to load image from fallback cache: '' @ completeImageName))
          (\<lambda>_. Done None)
      else
      await (inspectImageLocal completeImageName) (\<lambda>inspectInfo.
      let imageSize' = map_option Size inspectInfo in
      Done (Some \<lparr>success = True, restoredFromCache = True, imageName = completeImageName,
                   cacheKey = (case CacheOperationResult.cacheKey cacheResult of
                                 None \<Rightarrow> [] | Some k \<Rightarrow> k),
                   digest = None, platform = plat, error = None, imageSize = imageSize'\<rparr>)))))"

text \<open>
  \<^verbatim>\<open>processCacheHit\<close> (lines 169 to 274). \<^verbatim>\<open>Promise.all\<close> over the two reads starts
  them in the order of the array and returns their results by position; the model
  awaits them in that order. The test \<^verbatim>\<open>!cachedManifest || !remoteManifest\<close> is the
  last case of the case distinction: one of the two manifests is \<^verbatim>\<open>undefined\<close>.
\<close>

definition processCacheHit ::
  "string \<Rightarrow> string \<Rightarrow> string \<Rightarrow> string option \<Rightarrow> bool \<Rightarrow> string \<Rightarrow> string option
     \<Rightarrow> ServiceResult proc" where
  "processCacheHit completeImageName imageTarPath manifestPath manifestCacheHitKey
       skipLatestCheck imageDigest plat =
     await (loadImageFromTar imageTarPath) (\<lambda>loadSuccess.
     if \<not> loadSuccess then
       Done \<lparr>success = False, restoredFromCache = False, imageName = completeImageName,
             cacheKey = [], digest = Some imageDigest, platform = plat,
             error = Some (''Failed to load image from cache: '' @ completeImageName),
             imageSize = None\<rparr>
     else
     await (inspectImageLocal completeImageName) (\<lambda>inspectInfo.
     let imageSize' = map_option Size inspectInfo in
     if skipLatestCheck then
       await (core_info (''Skipped latest check for '' @ completeImageName
                         @ '', using cached version'')) (\<lambda>_.
       Done \<lparr>success = True, restoredFromCache = True, imageName = completeImageName,
             cacheKey = [], digest = Some imageDigest, platform = plat,
             error = None, imageSize = imageSize'\<rparr>)
     else if \<not> truthy manifestCacheHitKey then
       await (core_debug (''No manifest cache for '' @ completeImageName)) (\<lambda>_.
       Done \<lparr>success = True, restoredFromCache = True, imageName = completeImageName,
             cacheKey = [], digest = Some imageDigest, platform = plat,
             error = None, imageSize = imageSize'\<rparr>)
     else
     await (readManifestFromFile manifestPath) (\<lambda>cachedManifest.
     await (inspectImageRemote completeImageName) (\<lambda>remoteManifest.
     case (cachedManifest, remoteManifest) of
       (Some cached, Some remote) \<Rightarrow>
         if DockerImageManifest.digest cached = DockerImageManifest.digest remote then
           await (core_debug (''Manifest match confirmed for '' @ completeImageName)) (\<lambda>_.
           Done \<lparr>success = True, restoredFromCache = True, imageName = completeImageName,
                 cacheKey = [], digest = Some imageDigest, platform = plat,
                 error = None, imageSize = imageSize'\<rparr>)
         else
           await (core_info (''Manifest mismatch detected for '' @ completeImageName
                             @ '', pulling fresh image'')) (\<lambda>_.
           await (pullImage completeImageName plat) (\<lambda>pullSuccess.
           await (guarded (\<not> pullSuccess)
                    (core_warning (''Failed to pull updated image '' @ completeImageName))) (\<lambda>_.
           Done \<lparr>success = True, restoredFromCache = True, imageName = completeImageName,
                 cacheKey = [], digest = Some imageDigest, platform = plat,
                 error = None, imageSize = imageSize'\<rparr>)))
     | _ \<Rightarrow>
         await (core_debug (''Cannot compare manifests for '' @ completeImageName
                            @ '': missing data'')) (\<lambda>_.
         Done \<lparr>success = True, restoredFromCache = True, imageName = completeImageName,
               cacheKey = [], digest = Some imageDigest, platform = plat,
               error = None, imageSize = imageSize'\<rparr>)))))"

text \<open>
  The destructuring \<^verbatim>\<open>const [imageNamePart, imageTagOrLatest = 'latest'] =
  completeImageName.split(':')\<close> (line 292): the first two pieces of the split; a
  missing piece is \<^verbatim>\<open>undefined\<close>, and the default replaces an \<^verbatim>\<open>undefined\<close> tag only.
\<close>

definition imageNamePart :: "string \<Rightarrow> string option" where
  "imageNamePart completeImageName =
     (case split CHR '':'' completeImageName of [] \<Rightarrow> None | a # rest \<Rightarrow> Some a)"

definition imageTagOrLatest :: "string \<Rightarrow> string" where
  "imageTagOrLatest completeImageName =
     (case split CHR '':'' completeImageName of
        a # b # rest \<Rightarrow> b
      | _ \<Rightarrow> ''latest'')"

text \<open>
  \<^verbatim>\<open>processService\<close> (lines 285 to 445). The guard \<^verbatim>\<open>!imageNamePart\<close> holds for
  \<^verbatim>\<open>undefined\<close> and for the empty string, and so does \<^verbatim>\<open>!manifest || !manifest.digest\<close>
  for a missing manifest, a missing digest and an empty digest; each is a case
  distinction here, with the early return bound to a name (\<open>invalid\<close>, \<open>unavailable\<close>).
  \<^verbatim>\<open>Promise.all\<close> over the two restores is awaited in the order of the array; a call
  of \<^verbatim>\<open>restoreFromCache\<close> without restore keys passes the empty list.
\<close>

definition processService ::
  "cache_module \<Rightarrow> ComposeService \<Rightarrow> string \<Rightarrow> bool \<Rightarrow> bool \<Rightarrow> ServiceResult proc" where
  "processService cm serviceDefinition cacheKeyPrefix skipLatestCheck forceRefresh =
     (let completeImageName = image_str serviceDefinition;
          plat = ComposeService.platform serviceDefinition;
          tag = imageTagOrLatest completeImageName;
          invalid =
            Done \<lparr>success = False, restoredFromCache = False, imageName = completeImageName,
                  cacheKey = [], digest = None, platform = plat,
                  error = Some (''Invalid image name format: '' @ completeImageName),
                  imageSize = None\<rparr>
      in
      case imageNamePart completeImageName of
        None \<Rightarrow> invalid
      | Some imageNameWithoutTag \<Rightarrow>
      if imageNameWithoutTag = [] then invalid
      else
      await (inspectImageRemote completeImageName) (\<lambda>manifest.
      let giveUp =
            await (core_warning (''Could not get digest for '' @ completeImageName
                                 @ '', skipping cache'')) (\<lambda>_.
            Done \<lparr>success = False, restoredFromCache = False, imageName = completeImageName,
                  cacheKey = [], digest = None, platform = plat,
                  error = Some (''Could not get digest for '' @ completeImageName),
                  imageSize = None\<rparr>);
          unavailable =
            (if skipLatestCheck \<and> \<not> forceRefresh then
               await (tryRestoreFromCacheWithoutDigest cm completeImageName imageNameWithoutTag
                        tag plat cacheKeyPrefix) (\<lambda>fallbackResult.
               case fallbackResult of
                 Some result \<Rightarrow>
                   await (core_warning (''Registry unavailable for '' @ completeImageName
                            @ ''. Using cached version. ''
                            @ ''Image may be outdated. Enable network access or set force-refresh to pull fresh images.''))
                     (\<lambda>_. Done result)
               | None \<Rightarrow> giveUp)
             else giveUp)
      in
      case manifest of
        None \<Rightarrow> unavailable
      | Some manifest' \<Rightarrow>
      case DockerImageManifest.digest manifest' of
        None \<Rightarrow> unavailable
      | Some imageDigest \<Rightarrow>
      if imageDigest = [] then unavailable
      else
      let imageCacheKey =
            generateCacheKey cm cacheKeyPrefix imageNameWithoutTag tag plat (Some imageDigest);
          imageTarPath = generateTarPath cm imageNameWithoutTag tag plat (Some imageDigest);
          manifestCacheKey =
            generateManifestCacheKey cm cacheKeyPrefix imageNameWithoutTag tag plat
              (Some imageDigest);
          manifestPath = generateManifestPath cm imageNameWithoutTag tag plat (Some imageDigest)
      in
      await (guarded (truthy plat)
               (core_info (''Using platform '' @ template_str plat @ '' for ''
                           @ completeImageName))) (\<lambda>_.
      await (core_info (''Cache key for '' @ completeImageName @ '': '' @ imageCacheKey)) (\<lambda>_.
      await (core_debug (''Cache path: '' @ imageTarPath)) (\<lambda>_.
      if forceRefresh then
        await (core_info (''Force refresh enabled for '' @ completeImageName
                          @ '', pulling fresh image'')) (\<lambda>_.
        await (pullAndCacheImage completeImageName plat imageCacheKey manifestCacheKey
                 imageTarPath manifestPath imageDigest manifest') (\<lambda>pullResult.
        Done \<lparr>success = ImageOperationResult.success pullResult, restoredFromCache = False,
              imageName = completeImageName, cacheKey = imageCacheKey,
              digest = Some imageDigest, platform = plat,
              error = ImageOperationResult.error pullResult,
              imageSize = ImageOperationResult.imageSize pullResult\<rparr>))
      else
      await (restoreFromCache [imageTarPath] imageCacheKey []) (\<lambda>cacheResult.
      await (restoreFromCache [manifestPath] manifestCacheKey []) (\<lambda>manifestCacheResult.
      if \<not> CacheOperationResult.success cacheResult then
        await (core_info (''Cache miss for '' @ completeImageName @ '', pulling and saving''))
          (\<lambda>_.
        await (pullAndCacheImage completeImageName plat imageCacheKey manifestCacheKey
                 imageTarPath manifestPath imageDigest manifest') (\<lambda>pullResult.
        Done \<lparr>success = ImageOperationResult.success pullResult, restoredFromCache = False,
              imageName = completeImageName, cacheKey = imageCacheKey,
              digest = Some imageDigest, platform = plat,
              error = ImageOperationResult.error pullResult,
              imageSize = ImageOperationResult.imageSize pullResult\<rparr>))
      else
      await (core_info (''Cache hit for '' @ completeImageName @ '', loading from cache''))
        (\<lambda>_.
      await (processCacheHit completeImageName imageTarPath manifestPath
               (CacheOperationResult.cacheKey manifestCacheResult) skipLatestCheck imageDigest
               plat) (\<lambda>result.
      Done (result\<lparr>cacheKey := imageCacheKey\<rparr>))))))))))"

section \<open>Runs\<close>

text \<open>
  A run of a computation is driven by the responses of the outside world, in the order
  in which the computation receives them. \<open>feed p rs\<close> is the result of \<open>p\<close> and the
  trace of its calls and log lines, when the responses \<open>rs\<close> answer exactly the calls
  that \<open>p\<close> makes; it is \<open>None\<close> when a response does not answer its request, when the
  responses run out, or when some are left over.
\<close>

datatype event = Called request response | Logged level string

primrec feed :: "'a proc \<Rightarrow> response list \<Rightarrow> ('a \<times> event list) option" where
  "feed (Done a) rs = (case rs of [] \<Rightarrow> Some (a, []) | r # rs' \<Rightarrow> None)"
| "feed (Log l m p) rs = map_option (apsnd (Cons (Logged l m))) (feed p rs)"
| "feed (Call q k) rs =
     (case rs of
        [] \<Rightarrow> None
      | r # rs' \<Rightarrow>
          if answers q r then map_option (apsnd (Cons (Called q r))) (feed (k r) rs')
          else None)"

text \<open>The kinds of events that the claims speak of.\<close>

fun is_pull :: "event \<Rightarrow> bool" where
  "is_pull (Called (PullImage n p) r) = True"
| "is_pull e = False"

fun is_cache_access :: "event \<Rightarrow> bool" where
  "is_cache_access (Called (RestoreFromCache ps k rks) r) = True"
| "is_cache_access (Called (SaveToCache ps k) r) = True"
| "is_cache_access (Called (SaveManifestToCache m p k) r) = True"
| "is_cache_access (Called (ReadManifestFromFile p) r) = True"
| "is_cache_access e = False"

fun is_cache_save :: "event \<Rightarrow> bool" where
  "is_cache_save (Called (SaveToCache ps k) r) = True"
| "is_cache_save (Called (SaveManifestToCache m p k) r) = True"
| "is_cache_save e = False"

fun is_io :: "event \<Rightarrow> bool" where
  "is_io (Called q r) = True"
| "is_io (Logged l m) = False"

text \<open>
  \<open>always Q p\<close>: every result that \<open>p\<close> can return, whatever the responses, satisfies \<open>Q\<close>.
\<close>

primrec always :: "('a \<Rightarrow> bool) \<Rightarrow> 'a proc \<Rightarrow> bool" where
  "always Q (Done a) = Q a"
| "always Q (Log l m p) = always Q p"
| "always Q (Call q k) = (\<forall>r. answers q r \<longrightarrow> always Q (k r))"

text \<open>A restore that may fall back on restore keys, as the degraded fallback does.\<close>

fun is_fallback_restore :: "event \<Rightarrow> bool" where
  "is_fallback_restore (Called (RestoreFromCache ps k rks) r) = (rks \<noteq> [])"
| "is_fallback_restore e = False"

section \<open>The batch\<close>

text \<open>
  \<^verbatim>\<open>run\<close> maps an asynchronous function over the target images and hands the
  promises to \<^verbatim>\<open>Promise.all\<close> (main.ts, the statement that assigns
  \<^verbatim>\<open>serviceProcessingResults\<close>). \<open>serviceTask\<close> is that function: it reads the clock,
  awaits processService, reads the clock again and spreads the result into a
  \<^verbatim>\<open>TimedServiceResult\<close>. \<^verbatim>\<open>formatTimeBetween\<close> (date-utils) is not among the sources
  and is a parameter. The later version of \<^verbatim>\<open>run\<close> passes the container runtime as a
  first argument, to a processService that is not among the sources either; the
  processService of docker-compose-service-processing.ts takes none. The earlier
  version passes no \<^verbatim>\<open>forceRefresh\<close>, which then defaults to \<^verbatim>\<open>false\<close>.
\<close>

definition serviceTask ::
  "(real \<Rightarrow> real \<Rightarrow> string) \<Rightarrow> cache_module \<Rightarrow> string \<Rightarrow> bool \<Rightarrow> bool \<Rightarrow> ComposeService
     \<Rightarrow> TimedServiceResult proc" where
  "serviceTask formatTimeBetween cm cacheKeyPrefix skipDigestVerification forceRefresh
       currentImage =
     await performance_now (\<lambda>serviceStartTime.
     await (processService cm currentImage cacheKeyPrefix skipDigestVerification forceRefresh)
       (\<lambda>serviceResult.
     await performance_now (\<lambda>serviceEndTime.
     Done (ServiceResult.extend serviceResult
             (TimedServiceResult.fields (serviceEndTime - serviceStartTime)
                (formatTimeBetween serviceStartTime serviceEndTime))))))"

text \<open>
  The promises run interleaved on one thread: each is suspended at a call, and the
  event loop resumes one of them with the response to its call, up to its next call.
  \<open>settle\<close> runs the synchronous part of a computation (its log lines), \<open>resume\<close>
  hands a response to a suspended computation, and \<open>outcome\<close> is the value of a
  computation that has returned.
\<close>

primrec settle :: "'a proc \<Rightarrow> 'a proc" where
  "settle (Done a) = Done a"
| "settle (Log l m p) = settle p"
| "settle (Call q k) = Call q k"

definition resume :: "'a proc \<Rightarrow> response \<Rightarrow> 'a proc option" where
  "resume p r =
     (case settle p of
        Call q k \<Rightarrow> if answers q r then Some (k r) else None
      | _ \<Rightarrow> None)"

definition outcome :: "'a proc \<Rightarrow> 'a option" where
  "outcome p = (case settle p of Done a \<Rightarrow> Some a | _ \<Rightarrow> None)"

text \<open>
  A delivery \<open>(i, r)\<close> resumes promise \<open>i\<close> with the response \<open>r\<close>. The order of the
  deliveries is the order in which the outside world completes the calls; it is
  arbitrary. \<open>Promise_all ps ds\<close> is the array that \<^verbatim>\<open>Promise.all\<close> resolves to when the
  deliveries \<open>ds\<close> have brought every promise of \<open>ps\<close> to its end: the values of the
  promises by position. No promise of this program rejects, so neither does
  \<^verbatim>\<open>Promise.all\<close>.
\<close>

fun deliver :: "'a proc list \<Rightarrow> nat \<times> response \<Rightarrow> 'a proc list option" where
  "deliver ps (i, r) =
     (if i < length ps then map_option (\<lambda>q. ps[i := q]) (resume (ps ! i) r) else None)"

primrec deliveries :: "'a proc list \<Rightarrow> (nat \<times> response) list \<Rightarrow> 'a proc list option" where
  "deliveries ps [] = Some ps"
| "deliveries ps (d # ds) =
     (case deliver ps d of None \<Rightarrow> None | Some qs \<Rightarrow> deliveries qs ds)"

primrec all_outcomes :: "'a proc list \<Rightarrow> 'a list option" where
  "all_outcomes [] = Some []"
| "all_outcomes (p # ps) =
     (case outcome p of
        None \<Rightarrow> None
      | Some a \<Rightarrow> map_option (Cons a) (all_outcomes ps))"

definition Promise_all :: "'a proc list \<Rightarrow> (nat \<times> response) list \<Rightarrow> 'a list option" where
  "Promise_all ps ds =
     (case deliveries ps ds of None \<Rightarrow> None | Some qs \<Rightarrow> all_outcomes qs)"

definition serviceProcessingResults ::
  "(real \<Rightarrow> real \<Rightarrow> string) \<Rightarrow> cache_module \<Rightarrow> string \<Rightarrow> bool \<Rightarrow> bool \<Rightarrow> ComposeService list
     \<Rightarrow> (nat \<times> response) list \<Rightarrow> TimedServiceResult list option" where
  "serviceProcessingResults formatTimeBetween cm cacheKeyPrefix skipDigestVerification
       forceRefresh targetImages ds =
     Promise_all
       (map (serviceTask formatTimeBetween cm cacheKeyPrefix skipDigestVerification
               forceRefresh) targetImages) ds"

text \<open>The responses that promise \<open>i\<close> receives in a sequence of deliveries, in their order.\<close>

definition responses_for :: "nat \<Rightarrow> (nat \<times> response) list \<Rightarrow> response list" where
  "responses_for i ds = map snd (filter (\<lambda>d. fst d = i) ds)"

text \<open>The result of a run, without its trace.\<close>

definition feed_result :: "'a proc \<Rightarrow> response list \<Rightarrow> 'a option" where
  "feed_result p rs = map_option fst (feed p rs)"

text \<open>
  \<open>finishes_within n p\<close>: \<open>p\<close> returns after at most \<open>n\<close> responses, whatever they are.
\<close>

primrec finishes_within :: "nat \<Rightarrow> 'a proc \<Rightarrow> bool" where
  "finishes_within n (Done a) = True"
| "finishes_within n (Log l m p) = finishes_within n p"
| "finishes_within n (Call q k) =
     (0 < n \<and> (\<forall>r. answers q r \<longrightarrow> finishes_within (n - 1) (k r)))"

section \<open>The cache key deriver\<close>

text \<open>
  Modelled from the spec: the key derivation of cache.ts (\<^verbatim>\<open>extractDigestPrefix\<close>,
  \<^verbatim>\<open>generateCacheKeyPrefix\<close>, \<^verbatim>\<open>generateCacheKey\<close>), of which only the declarations
  are among the sources. The specification gives the key as
  \<^verbatim>\<open>{prefix}-{sanitizedName}-{tag}-{os}-{arch}-{variant}-{digestOrNone}\<close>, with os, arch
  and variant parsed out of the platform string (the host's when the platform is
  absent) and \<^verbatim>\<open>digestOrNone\<close> a short prefix of fixed length of the digest without its
  algorithm label, or \<^verbatim>\<open>none\<close> when there is no digest; a companion function gives the
  same key without the digest segment. What the specification leaves open is a
  parameter: how a name is sanitized, how the platform segments are found, the length
  of the digest prefix, the suffix of the manifest key and the two paths.
\<close>

record key_parameters =
  sanitizeImageName :: "string \<Rightarrow> string"
  platformSegments :: "string option \<Rightarrow> string \<times> string \<times> string"
  digestPrefixLength :: nat
  manifestKeySuffix :: string
  tarPathOf :: "string \<Rightarrow> string \<Rightarrow> string option \<Rightarrow> string option \<Rightarrow> string"
  manifestPathOf :: "string \<Rightarrow> string \<Rightarrow> string option \<Rightarrow> string option \<Rightarrow> string"

definition spec_extractDigestPrefix :: "key_parameters \<Rightarrow> string option \<Rightarrow> string" where
  "spec_extractDigestPrefix P d =
     (case d of
        None \<Rightarrow> ''none''
      | Some full \<Rightarrow>
          take (digestPrefixLength P)
            (if take 7 full = ''sha256:'' then drop 7 full else full))"

definition spec_generateCacheKeyPrefix ::
  "key_parameters \<Rightarrow> string \<Rightarrow> string \<Rightarrow> string \<Rightarrow> string option \<Rightarrow> string" where
  "spec_generateCacheKeyPrefix P cacheKeyPrefix name imageTag targetPlatformString =
     (case platformSegments P targetPlatformString of
        (os, arch, variant) \<Rightarrow>
          cacheKeyPrefix @ ''-'' @ sanitizeImageName P name @ ''-'' @ imageTag @ ''-'' @ os
            @ ''-'' @ arch @ ''-'' @ variant)"

definition spec_generateCacheKey ::
  "key_parameters \<Rightarrow> string \<Rightarrow> string \<Rightarrow> string \<Rightarrow> string option \<Rightarrow> string option \<Rightarrow> string" where
  "spec_generateCacheKey P cacheKeyPrefix name imageTag targetPlatformString d =
     spec_generateCacheKeyPrefix P cacheKeyPrefix name imageTag targetPlatformString
       @ ''-'' @ spec_extractDigestPrefix P d"

definition spec_cache_module :: "key_parameters \<Rightarrow> cache_module" where
  "spec_cache_module P =
     \<lparr>generateCacheKey = spec_generateCacheKey P,
      generateCacheKeyPrefix = spec_generateCacheKeyPrefix P,
      generateManifestCacheKey =
        (\<lambda>cacheKeyPrefix name imageTag targetPlatformString d.
           spec_generateCacheKey P cacheKeyPrefix name imageTag targetPlatformString d
             @ manifestKeySuffix P),
      generateTarPath = tarPathOf P,
      generateManifestPath = manifestPathOf P\<rparr>"

text \<open>
  One choice of the parameters, for running the processor on concrete images: a
  Linux host on amd64, the twelve characters of the README's key table, dots, slashes
  and colons of a name replaced by dashes, files under \<^verbatim>\<open>/tmp\<close>.
\<close>

definition example_parameters :: key_parameters where
  "example_parameters =
     \<lparr>sanitizeImageName =
        map (\<lambda>c. if c = CHR ''/'' \<or> c = CHR ''.'' \<or> c = CHR '':'' then CHR ''-'' else c),
      platformSegments = (\<lambda>targetPlatformString. (''linux'', ''amd64'', ''none'')),
      digestPrefixLength = 12,
      manifestKeySuffix = ''-manifest'',
      tarPathOf =
        (\<lambda>name imageTag targetPlatformString d.
           ''/tmp/'' @ name @ ''-'' @ imageTag @ ''-'' @ template_str d @ ''.tar''),
      manifestPathOf =
        (\<lambda>name imageTag targetPlatformString d.
           ''/tmp/'' @ name @ ''-'' @ imageTag @ ''-'' @ template_str d @ ''.json'')\<rparr>"

definition example_module :: cache_module where
  "example_module = spec_cache_module example_parameters"

section \<open>Interleaved runs\<close>

text \<open>
  A promise that is resumed with the responses of a sequence of deliveries goes where
  \<open>feed\<close> goes on the responses addressed to it: the deliveries to the other promises
  do not touch it. So \<open>Promise_all\<close> resolves exactly when every promise, run alone on
  its own responses, returns, and it resolves to these values by position.
\<close>

lemmas gateway_defs = inspectImageRemote_def pullImage_def saveImageToTar_def loadImageFromTar_def
  inspectImageLocal_def restoreFromCache_def saveToCache_def saveManifestToCache_def
  readManifestFromFile_def performance_now_def core_info_def core_warning_def core_debug_def
  guarded_def

lemma feed_result_Nil: "feed_result p [] = outcome p"
  by (induction p) (simp_all add: feed_result_def outcome_def option.map_comp comp_def)

lemma feed_result_Cons:
  "feed_result p (r # rs) = (case resume p r of None \<Rightarrow> None | Some q \<Rightarrow> feed_result q rs)"
  by (induction p) (simp_all add: feed_result_def resume_def option.map_comp comp_def)

lemma responses_for_Cons:
  "responses_for i ((j, r) # ds) = (if j = i then r # responses_for i ds else responses_for i ds)"
  by (simp add: responses_for_def)

lemma deliveries_length: "deliveries ps ds = Some qs \<Longrightarrow> length qs = length ps"
  by (induction ds arbitrary: ps) (auto split: option.splits if_splits)

lemma deliveries_feed:
  "deliveries ps ds = Some qs \<Longrightarrow> i < length ps \<Longrightarrow>
   feed_result (ps ! i) (responses_for i ds @ rs) = feed_result (qs ! i) rs"
proof (induction ds arbitrary: ps)
  case Nil
  then show ?case by (simp add: responses_for_def)
next
  case (Cons d ds)
  obtain j r where d: "d = (j, r)" by (cases d)
  from Cons.prems(1) d obtain q where j: "j < length ps" and q: "resume (ps ! j) r = Some q"
    and rest: "deliveries (ps[j := q]) ds = Some qs"
    by (auto split: option.splits if_splits)
  from Cons.prems(2) have i: "i < length (ps[j := q])" by simp
  have ih: "feed_result (ps[j := q] ! i) (responses_for i ds @ rs) = feed_result (qs ! i) rs"
    by (rule Cons.IH [OF rest i])
  show ?case
  proof (cases "j = i")
    case True
    with ih j q show ?thesis by (simp add: d responses_for_Cons feed_result_Cons)
  next
    case False
    with ih show ?thesis by (simp add: d responses_for_Cons)
  qed
qed

lemma all_outcomes_iff:
  "all_outcomes ps = Some ys \<longleftrightarrow>
     length ys = length ps \<and> (\<forall>i<length ps. outcome (ps ! i) = Some (ys ! i))"
proof (induction ps arbitrary: ys)
  case Nil
  then show ?case by auto
next
  case (Cons p ps)
  show ?case
  proof (cases ys)
    case Nil
    then show ?thesis by (auto split: option.splits)
  next
    case (Cons y ys')
    then show ?thesis
      using Cons.IH [of ys']
      by (auto simp: nth_Cons less_Suc_eq_0_disj split: option.splits nat.splits)
  qed
qed

lemma deliveries_complete:
  "\<forall>d\<in>set ds. fst d < length ps \<Longrightarrow>
   \<forall>i<length ps. feed_result (ps ! i) (responses_for i ds) \<noteq> None \<Longrightarrow>
   \<exists>qs. deliveries ps ds = Some qs"
proof (induction ds arbitrary: ps)
  case Nil
  then show ?case by simp
next
  case (Cons d ds)
  obtain j r where d: "d = (j, r)" by (cases d)
  from Cons.prems(1) d have j: "j < length ps" by simp
  from Cons.prems(2) j have "feed_result (ps ! j) (r # responses_for j ds) \<noteq> None"
    by (auto simp: d responses_for_Cons)
  then obtain q where q: "resume (ps ! j) r = Some q"
    and fq: "feed_result q (responses_for j ds) \<noteq> None"
    by (auto simp: feed_result_Cons split: option.splits)
  have "\<forall>i<length (ps[j := q]). feed_result (ps[j := q] ! i) (responses_for i ds) \<noteq> None"
  proof (intro allI impI)
    fix i assume i: "i < length (ps[j := q])"
    show "feed_result (ps[j := q] ! i) (responses_for i ds) \<noteq> None"
    proof (cases "i = j")
      case True
      with fq j show ?thesis by simp
    next
      case False
      with Cons.prems(2) i show ?thesis by (auto simp: d responses_for_Cons)
    qed
  qed
  moreover from Cons.prems(1) have "\<forall>d\<in>set ds. fst d < length (ps[j := q])" by simp
  ultimately obtain qs where "deliveries (ps[j := q]) ds = Some qs"
    using Cons.IH by blast
  with j q show ?case by (simp add: d)
qed

lemma Promise_all_iff:
  assumes "\<forall>d\<in>set ds. fst d < length ps"
  shows "Promise_all ps ds = Some ys \<longleftrightarrow>
     length ys = length ps \<and> (\<forall>i<length ps. feed_result (ps ! i) (responses_for i ds) = Some (ys ! i))"
proof
  assume "Promise_all ps ds = Some ys"
  then obtain qs where qs: "deliveries ps ds = Some qs" and ys: "all_outcomes qs = Some ys"
    by (auto simp: Promise_all_def split: option.splits)
  have len: "length qs = length ps" by (rule deliveries_length [OF qs])
  show "length ys = length ps \<and> (\<forall>i<length ps. feed_result (ps ! i) (responses_for i ds) = Some (ys ! i))"
  proof (intro conjI allI impI)
    from ys len show "length ys = length ps" by (simp add: all_outcomes_iff)
  next
    fix i assume i: "i < length ps"
    have "feed_result (ps ! i) (responses_for i ds @ []) = feed_result (qs ! i) []"
      by (rule deliveries_feed [OF qs i])
    also have "\<dots> = outcome (qs ! i)" by (rule feed_result_Nil)
    also from ys i len have "\<dots> = Some (ys ! i)" by (simp add: all_outcomes_iff)
    finally show "feed_result (ps ! i) (responses_for i ds) = Some (ys ! i)" by simp
  qed
next
  assume r: "length ys = length ps \<and> (\<forall>i<length ps. feed_result (ps ! i) (responses_for i ds) = Some (ys ! i))"
  then have "\<forall>i<length ps. feed_result (ps ! i) (responses_for i ds) \<noteq> None" by simp
  with assms obtain qs where qs: "deliveries ps ds = Some qs"
    using deliveries_complete by blast
  have len: "length qs = length ps" by (rule deliveries_length [OF qs])
  have "\<forall>i<length qs. outcome (qs ! i) = Some (ys ! i)"
  proof (intro allI impI)
    fix i assume "i < length qs"
    with len have i: "i < length ps" by simp
    have "feed_result (ps ! i) (responses_for i ds @ []) = feed_result (qs ! i) []"
      by (rule deliveries_feed [OF qs i])
    with r i show "outcome (qs ! i) = Some (ys ! i)" by (simp add: feed_result_Nil)
  qed
  with r len have "all_outcomes qs = Some ys" by (simp add: all_outcomes_iff)
  with qs show "Promise_all ps ds = Some ys" by (simp add: Promise_all_def)
qed

section \<open>Properties of every run\<close>

text \<open>
  \<open>always\<close> distributes over \<open>await\<close> and holds of every result that \<open>feed\<close> returns.
  Every outcome of processService names the image it was called with, and an outcome
  that carries a digest carries the cache key derived from that digest.
\<close>

lemma always_await: "always Q (await p f) = always (\<lambda>a. always Q (f a)) p"
  by (induction p) simp_all

lemma always_feed: "always Q p \<Longrightarrow> feed p rs = Some (a, t) \<Longrightarrow> Q a"
proof (induction p arbitrary: rs t)
  case (Done x)
  then show ?case by (auto split: list.splits)
next
  case (Log l m p)
  then show ?case by auto
next
  case (Call q k)
  from Call.prems(2) obtain r rs' t' where r: "answers q r" and run: "feed (k r) rs' = Some (a, t')"
    by (auto split: list.splits if_splits)
  from Call.prems(1) r have ok: "always Q (k r)" by simp
  show ?case by (rule Call.IH [OF rangeI ok run])
qed

lemma always_top: "always (\<lambda>a. True) p"
  by (induction p) simp_all

lemma always_mono: "always P p \<Longrightarrow> (\<And>a. P a \<Longrightarrow> Q a) \<Longrightarrow> always Q p"
  by (induction p) auto

lemma processCacheHit_imageName:
  "always (\<lambda>r. imageName r = completeImageName \<and> digest r = Some imageDigest)
     (processCacheHit completeImageName imageTarPath manifestPath manifestCacheHitKey
        skipLatestCheck imageDigest plat)"
  by (simp add: processCacheHit_def gateway_defs Let_def always_await split: option.splits)

lemma tryRestore_imageName:
  "always (\<lambda>r. \<forall>x. r = Some x \<longrightarrow> imageName x = completeImageName \<and> digest x = None)
     (tryRestoreFromCacheWithoutDigest cm completeImageName imageNameWithoutTag imageTag plat
        cacheKeyPrefix)"
  by (simp add: tryRestoreFromCacheWithoutDigest_def gateway_defs Let_def always_await)

lemma processService_invariant:
  "always (\<lambda>r. imageName r = image_str svc \<and>
       (\<forall>d. digest r = Some d \<longrightarrow>
          cacheKey r = generateCacheKey cm prefix (the (imageNamePart (image_str svc)))
                         (imageTagOrLatest (image_str svc)) (ComposeService.platform svc) (Some d)))
     (processService cm svc prefix skip force)"
  apply (simp add: processService_def gateway_defs Let_def always_await split: option.splits)
  apply (intro conjI impI allI)
  apply (auto intro: always_mono [OF processCacheHit_imageName] always_mono [OF tryRestore_imageName] always_top)
  done

section \<open>The image reference\<close>

text \<open>
  The first piece of the split is the text before the first colon, so the name part is
  empty exactly for the empty string and for a string that begins with a colon.
\<close>

lemmas processor_defs = processService_def pullAndCacheImage_def
  tryRestoreFromCacheWithoutDigest_def processCacheHit_def gateway_defs Let_def

lemmas example_defs = example_module_def spec_cache_module_def example_parameters_def
  spec_generateCacheKey_def spec_generateCacheKeyPrefix_def spec_extractDigestPrefix_def
  imageNamePart_def imageTagOrLatest_def truthy_def optional_digest_def template_str_def

lemma split_nonempty: "split c s \<noteq> []"
  by (induction s) (auto split: list.splits)

lemma hd_split: "hd (split c s) = takeWhile (\<lambda>x. x \<noteq> c) s"
  by (induction s) (auto split: list.splits simp: split_nonempty)

lemma imageNamePart_takeWhile:
  "imageNamePart s = Some (takeWhile (\<lambda>x. x \<noteq> CHR '':'') s)"
  using hd_split [of "CHR '':''" s] split_nonempty [of "CHR '':''" s]
  by (auto simp: imageNamePart_def split: list.splits)

lemma name_missing_iff:
  "\<not> truthy (imageNamePart s) \<longleftrightarrow> s = [] \<or> (\<exists>rest. s = CHR '':'' # rest)"
  by (cases s) (auto simp: imageNamePart_takeWhile truthy_def)

text \<open>
  Claim C7. An image string whose name part before the colon is missing or empty (the
  string is empty or begins with a colon) makes processService return the
  formatting failure at once: the computation is \<open>Done\<close>, with no call and no log line
  before it. It is the only failure without input or output: for every other image
  string the first step of processService is the inspection of the remote manifest,
  so every other outcome comes after a call.
\<close>

theorem invalid_image_name_rejected:
  "(\<not> truthy (imageNamePart (image_str svc))
      \<longleftrightarrow> image_str svc = [] \<or> (\<exists>rest. image_str svc = CHR '':'' # rest))
   \<and> (\<not> truthy (imageNamePart (image_str svc)) \<longrightarrow>
        processService cm svc prefix skipLatestCheck forceRefresh =
          Done \<lparr>success = False, restoredFromCache = False, imageName = image_str svc,
                cacheKey = [], digest = None, platform = ComposeService.platform svc,
                error = Some (''Invalid image name format: '' @ image_str svc),
                imageSize = None\<rparr>)
   \<and> (truthy (imageNamePart (image_str svc)) \<longrightarrow>
        (\<exists>k. processService cm svc prefix skipLatestCheck forceRefresh =
               Call (InspectImageRemote (image_str svc)) k))"
proof (intro conjI impI)
  show "\<not> truthy (imageNamePart (image_str svc))
      \<longleftrightarrow> image_str svc = [] \<or> (\<exists>rest. image_str svc = CHR '':'' # rest)"
    by (rule name_missing_iff)
next
  assume "\<not> truthy (imageNamePart (image_str svc))"
  then show "processService cm svc prefix skipLatestCheck forceRefresh =
          Done \<lparr>success = False, restoredFromCache = False, imageName = image_str svc,
                cacheKey = [], digest = None, platform = ComposeService.platform svc,
                error = Some (''Invalid image name format: '' @ image_str svc),
                imageSize = None\<rparr>"
    by (simp add: processService_def Let_def truthy_def split: option.splits)
next
  assume "truthy (imageNamePart (image_str svc))"
  then show "\<exists>k. processService cm svc prefix skipLatestCheck forceRefresh =
               Call (InspectImageRemote (image_str svc)) k"
    by (auto simp: processService_def Let_def truthy_def inspectImageRemote_def
        split: option.splits)
qed

theorem invalid_image_name_rejected_witness:
  "processService example_module \<lparr>image_str = '':1.25'', platform = None\<rparr>
     ''docker-compose-image'' False False =
     Done \<lparr>success = False, restoredFromCache = False, imageName = '':1.25'',
           cacheKey = [], digest = None, platform = None,
           error = Some ''Invalid image name format: :1.25'', imageSize = None\<rparr>
   \<and> (\<exists>k. processService example_module \<lparr>image_str = ''nginx:1.25'', platform = None\<rparr>
          ''docker-compose-image'' False False = Call (InspectImageRemote ''nginx:1.25'') k)"
  using invalid_image_name_rejected [of "\<lparr>image_str = '':1.25'', platform = None\<rparr>"
      example_module "''docker-compose-image''" False False]
    invalid_image_name_rejected [of "\<lparr>image_str = ''nginx:1.25'', platform = None\<rparr>"
      example_module "''docker-compose-image''" False False]
  by (simp add: imageNamePart_def truthy_def)

text \<open>
  Claim C2 says that the image string is split on its last colon, so that
  \<^verbatim>\<open>registry.example.com:5000/nginx:1.25\<close> has the name
  \<^verbatim>\<open>registry.example.com:5000/nginx\<close> and the tag \<^verbatim>\<open>1.25\<close>. The destructuring of
  processService takes the first two pieces of a split on every colon: on this image
  the name is the registry host and the tag is the port with the repository.
\<close>

theorem image_reference_registry_port:
  "imageNamePart ''registry.example.com:5000/nginx:1.25'' = Some ''registry.example.com''
   \<and> imageTagOrLatest ''registry.example.com:5000/nginx:1.25'' = ''5000/nginx''"
  by (simp add: imageNamePart_def imageTagOrLatest_def)

section \<open>The registry is unavailable\<close>

text \<open>
  Claim C5. When the remote digest cannot be resolved (no manifest, no digest or an
  empty digest) and the degraded fallback does not apply (skipDigestVerification is
  off, or forceRefresh is on), processService reports \<open>success = False\<close> at once: the
  run consists of the remote inspection and one warning, takes no further response,
  and makes no call to the cache.
\<close>

theorem digest_unavailable_no_fallback:
  assumes "truthy (imageNamePart (image_str svc))"
    and "\<not> truthy (optional_digest manifest)"
    and "\<not> skipLatestCheck \<or> forceRefresh"
  shows "feed (processService cm svc prefix skipLatestCheck forceRefresh) (RManifest manifest # rs) =
     (if rs = [] then
        Some (\<lparr>success = False, restoredFromCache = False, imageName = image_str svc,
               cacheKey = [], digest = None, platform = ComposeService.platform svc,
               error = Some (''Could not get digest for '' @ image_str svc), imageSize = None\<rparr>,
              [Called (InspectImageRemote (image_str svc)) (RManifest manifest),
               Logged Warning (''Could not get digest for '' @ image_str svc @ '', skipping cache'')])
      else None)"
proof -
  from assms(1) obtain name where name: "imageNamePart (image_str svc) = Some name" "name \<noteq> []"
    by (auto simp: truthy_def split: option.splits)
  from assms(2) have "manifest = None \<or> (\<exists>m. manifest = Some m \<and>
      (DockerImageManifest.digest m = None \<or> DockerImageManifest.digest m = Some []))"
    by (cases manifest) (auto simp: truthy_def optional_digest_def split: option.splits)
  with name assms(3) show ?thesis
    by (cases rs)
      (auto simp: processService_def inspectImageRemote_def core_warning_def Let_def)
qed

theorem digest_unavailable_no_fallback_witness:
  "feed (processService example_module \<lparr>image_str = ''nginx:1.25'', platform = None\<rparr>
           ''docker-compose-image'' False False) [RManifest None] =
     Some (\<lparr>success = False, restoredFromCache = False, imageName = ''nginx:1.25'',
            cacheKey = [], digest = None, platform = None,
            error = Some ''Could not get digest for nginx:1.25'', imageSize = None\<rparr>,
           [Called (InspectImageRemote ''nginx:1.25'') (RManifest None),
            Logged Warning ''Could not get digest for nginx:1.25, skipping cache''])"
  using digest_unavailable_no_fallback [of "\<lparr>image_str = ''nginx:1.25'', platform = None\<rparr>"
      None False False example_module "''docker-compose-image''" "[]"]
  by (simp add: imageNamePart_def truthy_def optional_digest_def)

text \<open>The three ways in which \<^verbatim>\<open>!manifest || !manifest.digest\<close> holds.\<close>

lemma unresolved_cases:
  "\<not> truthy (optional_digest manifest) \<Longrightarrow>
     manifest = None
     \<or> (\<exists>m. manifest = Some m \<and> DockerImageManifest.digest m = None)
     \<or> (\<exists>m. manifest = Some m \<and> DockerImageManifest.digest m = Some [])"
  by (cases manifest) (auto simp: truthy_def optional_digest_def split: option.splits)

text \<open>The keys and paths of the example module.\<close>

lemma example_module_sel:
  "generateCacheKey example_module = spec_generateCacheKey example_parameters"
  "generateCacheKeyPrefix example_module = spec_generateCacheKeyPrefix example_parameters"
  "generateTarPath example_module = tarPathOf example_parameters"
  "generateManifestPath example_module = manifestPathOf example_parameters"
  by (simp_all add: example_module_def spec_cache_module_def)

lemmas example_key_defs = example_module_sel spec_generateCacheKey_def
  spec_generateCacheKeyPrefix_def spec_extractDigestPrefix_def example_parameters_def
  imageNamePart_def imageTagOrLatest_def truthy_def optional_digest_def template_str_def

text \<open>
  Claim C4. When the remote digest cannot be resolved, skipDigestVerification is on,
  forceRefresh is off, the restore with the digest-less key prefix as restore key
  succeeds and the restored archive loads, the outcome is \<open>success = True\<close>,
  \<open>restoredFromCache = True\<close> with no digest, and the last line of the run is the warning
  that the cached image may be outdated. The cache key of the outcome is the key that
  the cache store reports as matched (empty if it reports none).
\<close>

theorem degraded_fallback_success:
  assumes "imageNamePart (image_str svc) = Some name" and "name \<noteq> []"
    and "\<not> truthy (optional_digest manifest)"
    and "CacheOperationResult.success restored"
  shows "feed (processService cm svc prefix True False)
           [RManifest manifest, RCache restored, RBool True, RMetadata info] =
     Some (\<lparr>success = True, restoredFromCache = True, imageName = image_str svc,
            cacheKey = (case CacheOperationResult.cacheKey restored of None \<Rightarrow> [] | Some k \<Rightarrow> k),
            digest = None, platform = ComposeService.platform svc, error = None,
            imageSize = map_option Size info\<rparr>,
           [Called (InspectImageRemote (image_str svc)) (RManifest manifest),
            Called (RestoreFromCache
                      [generateTarPath cm name (imageTagOrLatest (image_str svc))
                         (ComposeService.platform svc) (Some ''fallback'')]
                      (generateCacheKeyPrefix cm prefix name (imageTagOrLatest (image_str svc))
                         (ComposeService.platform svc) @ ''-fallback'')
                      [generateCacheKeyPrefix cm prefix name (imageTagOrLatest (image_str svc))
                         (ComposeService.platform svc)])
              (RCache restored),
            Called (LoadImageFromTar
                      (generateTarPath cm name (imageTagOrLatest (image_str svc))
                         (ComposeService.platform svc) (Some ''fallback'')))
              (RBool True),
            Called (InspectImageLocal (image_str svc)) (RMetadata info),
            Logged Warning (''Registry unavailable for '' @ image_str svc
              @ ''. Using cached version. ''
              @ ''Image may be outdated. Enable network access or set force-refresh to pull fresh images.'')])"
  using unresolved_cases [OF assms(3)] assms(1,2,4)
  by (elim disjE exE conjE)
    (simp_all add: processService_def tryRestoreFromCacheWithoutDigest_def gateway_defs Let_def)

theorem degraded_fallback_success_witness:
  "feed_result
     (processService example_module \<lparr>image_str = ''nginx:1.25'', platform = None\<rparr>
        ''docker-compose-image'' True False)
     [RManifest None,
      RCache \<lparr>CacheOperationResult.success = True,
               cacheKey = Some ''docker-compose-image-nginx-1.25-linux-amd64-none-aabbccddeeff'',
               error = None\<rparr>,
      RBool True,
      RMetadata (Some \<lparr>Size = 1024\<rparr>)] =
   Some \<lparr>success = True, restoredFromCache = True, imageName = ''nginx:1.25'',
          cacheKey = ''docker-compose-image-nginx-1.25-linux-amd64-none-aabbccddeeff'',
          digest = None, platform = None, error = None, imageSize = Some 1024\<rparr>"
  using degraded_fallback_success
    [where svc = "\<lparr>image_str = ''nginx:1.25'', platform = None\<rparr>" and name = "''nginx''"
       and manifest = None and cm = example_module and prefix = "''docker-compose-image''"
       and restored = "\<lparr>CacheOperationResult.success = True,
               cacheKey = Some ''docker-compose-image-nginx-1.25-linux-amd64-none-aabbccddeeff'',
               error = None\<rparr>"
       and info = "Some \<lparr>Size = 1024\<rparr>"]
  by (simp add: feed_result_def imageNamePart_def truthy_def optional_digest_def)

text \<open>
  Claim C10. In the degraded fallback, when the cache entry matched by the prefix is
  restored but the archive does not load, the fallback yields nothing: the outcome is
  \<open>success = False\<close> with the error \<^verbatim>\<open>Could not get digest for ...\<close>. The failure to
  load appears in the run as a debug line only, never in the outcome.
\<close>

theorem fallback_load_failure_hidden:
  assumes "imageNamePart (image_str svc) = Some name" and "name \<noteq> []"
    and "\<not> truthy (optional_digest manifest)"
    and "CacheOperationResult.success restored"
  shows "feed (processService cm svc prefix True False)
           [RManifest manifest, RCache restored, RBool False] =
     Some (\<lparr>success = False, restoredFromCache = False, imageName = image_str svc,
            cacheKey = [], digest = None, platform = ComposeService.platform svc,
            error = Some (''Could not get digest for '' @ image_str svc), imageSize = None\<rparr>,
           [Called (InspectImageRemote (image_str svc)) (RManifest manifest),
            Called (RestoreFromCache
                      [generateTarPath cm name (imageTagOrLatest (image_str svc))
                         (ComposeService.platform svc) (Some ''fallback'')]
                      (generateCacheKeyPrefix cm prefix name (imageTagOrLatest (image_str svc))
                         (ComposeService.platform svc) @ ''-fallback'')
                      [generateCacheKeyPrefix cm prefix name (imageTagOrLatest (image_str svc))
                         (ComposeService.platform svc)])
              (RCache restored),
            Called (LoadImageFromTar
                      (generateTarPath cm name (imageTagOrLatest (image_str svc))
                         (ComposeService.platform svc) (Some ''fallback'')))
              (RBool False),
            Logged Debug (''Failed to load image from fallback cache: '' @ image_str svc),
            Logged Warning (''Could not get digest for '' @ image_str svc @ '', skipping cache'')])"
  using unresolved_cases [OF assms(3)] assms(1,2,4)
  by (elim disjE exE conjE)
    (simp_all add: processService_def tryRestoreFromCacheWithoutDigest_def gateway_defs Let_def)

theorem fallback_load_failure_hidden_witness:
  "feed_result
     (processService example_module \<lparr>image_str = ''nginx:1.25'', platform = None\<rparr>
        ''docker-compose-image'' True False)
     [RManifest (Some \<lparr>DockerImageManifest.digest = None\<rparr>),
      RCache \<lparr>CacheOperationResult.success = True,
               cacheKey = Some ''docker-compose-image-nginx-1.25-linux-amd64-none-aabbccddeeff'',
               error = None\<rparr>,
      RBool False] =
   Some \<lparr>success = False, restoredFromCache = False, imageName = ''nginx:1.25'',
          cacheKey = [], digest = None, platform = None,
          error = Some ''Could not get digest for nginx:1.25'', imageSize = None\<rparr>"
  using fallback_load_failure_hidden
    [where svc = "\<lparr>image_str = ''nginx:1.25'', platform = None\<rparr>" and name = "''nginx''"
       and manifest = "Some \<lparr>DockerImageManifest.digest = None\<rparr>"
       and cm = example_module and prefix = "''docker-compose-image''"
       and restored = "\<lparr>CacheOperationResult.success = True,
               cacheKey = Some ''docker-compose-image-nginx-1.25-linux-amd64-none-aabbccddeeff'',
               error = None\<rparr>"]
  by (simp add: feed_result_def imageNamePart_def truthy_def optional_digest_def)

section \<open>Pulling and caching\<close>

text \<open>
  Claim C9. On the pull-and-cache path (forceRefresh, or a cache miss), when the pull
  succeeds and the inspection of the remote manifest after it returns no manifest or
  no digest, the outcome is a failure whose error is the digest mismatch
  \<^verbatim>\<open>expected <digest>, got undefined\<close>. The image is pulled once and no restore with
  restore keys is made, whatever skipDigestVerification is: the run does not go to the
  fallback for an unavailable registry.
\<close>

theorem post_pull_digest_missing:
  assumes "imageNamePart (image_str svc) = Some name" and "name \<noteq> []"
    and "DockerImageManifest.digest manifest = Some imageDigest" and "imageDigest \<noteq> []"
    and "(forceRefresh \<and> pre = [])
         \<or> (\<not> forceRefresh \<and> pre = [RCache archiveRestore, RCache manifestRestore]
            \<and> \<not> CacheOperationResult.success archiveRestore)"
    and "optional_digest newManifest = None"
  shows "\<exists>t. feed (processService cm svc prefix skipLatestCheck forceRefresh)
               (RManifest (Some manifest) # pre @ [RBool True, RManifest newManifest]) =
          Some (\<lparr>success = False, restoredFromCache = False, imageName = image_str svc,
                 cacheKey = generateCacheKey cm prefix name (imageTagOrLatest (image_str svc))
                              (ComposeService.platform svc) (Some imageDigest),
                 digest = Some imageDigest, platform = ComposeService.platform svc,
                 error = Some (''Digest mismatch for '' @ image_str svc @ '': expected ''
                               @ imageDigest @ '', got undefined''),
                 imageSize = None\<rparr>, t)
        \<and> filter is_pull t
            = [Called (PullImage (image_str svc) (ComposeService.platform svc)) (RBool True)]
        \<and> filter is_fallback_restore t = []"
  using assms(5,1,2,3,4,6)
  by (elim disjE conjE)
    (simp_all add: processService_def pullAndCacheImage_def gateway_defs Let_def template_str_def)

theorem post_pull_digest_missing_witness:
  "feed_result
     (processService example_module \<lparr>image_str = ''nginx:1.25'', platform = None\<rparr>
        ''docker-compose-image'' True False)
     [RManifest (Some \<lparr>DockerImageManifest.digest = Some ''sha256:aa''\<rparr>),
      RCache \<lparr>CacheOperationResult.success = False, cacheKey = None, error = None\<rparr>,
      RCache \<lparr>CacheOperationResult.success = False, cacheKey = None, error = None\<rparr>,
      RBool True,
      RManifest None] =
   Some \<lparr>success = False, restoredFromCache = False, imageName = ''nginx:1.25'',
          cacheKey = ''docker-compose-image-nginx-1.25-linux-amd64-none-aa'',
          digest = Some ''sha256:aa'', platform = None,
          error = Some ''Digest mismatch for nginx:1.25: expected sha256:aa, got undefined'',
          imageSize = None\<rparr>"
  using post_pull_digest_missing
    [where svc = "\<lparr>image_str = ''nginx:1.25'', platform = None\<rparr>" and name = "''nginx''"
       and manifest = "\<lparr>DockerImageManifest.digest = Some ''sha256:aa''\<rparr>"
       and imageDigest = "''sha256:aa''"
       and cm = example_module and prefix = "''docker-compose-image''"
       and forceRefresh = False and skipLatestCheck = True
       and archiveRestore = "\<lparr>CacheOperationResult.success = False, cacheKey = None, error = None\<rparr>"
       and manifestRestore = "\<lparr>CacheOperationResult.success = False, cacheKey = None, error = None\<rparr>"
       and pre = "[RCache \<lparr>CacheOperationResult.success = False, cacheKey = None, error = None\<rparr>,
                   RCache \<lparr>CacheOperationResult.success = False, cacheKey = None, error = None\<rparr>]"
       and newManifest = None]
  by (auto simp: feed_result_def example_defs)

text \<open>
  Claim C3 says that every step of the pull-and-cache sequence that fails leads to a
  failure outcome. It does not hold for the last three steps: on the forceRefresh path
  below the manifest snapshot is not persisted, the archive is not persisted and the
  local inspection fails, and the outcome is \<open>success = True\<close>.
\<close>

theorem pull_and_cache_persist_failure_counterexample:
  "feed_result
     (processService example_module \<lparr>image_str = ''nginx:1.25'', platform = None\<rparr>
        ''docker-compose-image'' False True)
     [RManifest (Some \<lparr>DockerImageManifest.digest = Some ''sha256:aa''\<rparr>),
      RBool True,
      RManifest (Some \<lparr>DockerImageManifest.digest = Some ''sha256:aa''\<rparr>),
      RBool True,
      RBool False,
      RCache \<lparr>CacheOperationResult.success = False, cacheKey = None,
               error = Some ''cache service unavailable''\<rparr>,
      RMetadata None] =
   Some \<lparr>success = True, restoredFromCache = False, imageName = ''nginx:1.25'',
          cacheKey = ''docker-compose-image-nginx-1.25-linux-amd64-none-aa'',
          digest = Some ''sha256:aa'', platform = None, error = None, imageSize = None\<rparr>"
  by (simp add: feed_result_def processService_def pullAndCacheImage_def gateway_defs Let_def
      example_defs)

text \<open>
  Claim C3 as amended. On the forceRefresh path and on the cache-miss path alike
  (\<open>pre\<close> is empty on the first and holds the two restores, the archive not restored, on
  the second), a failure of the pull, of the digest check after the pull or of the save
  to the archive ends the processing with \<open>success = False\<close> and that step's reason,
  nothing having been saved to the cache. Once these three steps have succeeded the
  outcome is \<open>success = True\<close>, \<open>restoredFromCache = False\<close>, whatever the two saves to
  the cache and the local inspection return; the size is absent when the inspection
  returns nothing.
\<close>

theorem pull_and_cache_short_circuit:
  assumes "imageNamePart (image_str svc) = Some name" and "name \<noteq> []"
    and "DockerImageManifest.digest manifest = Some imageDigest" and "imageDigest \<noteq> []"
    and "(forceRefresh \<and> pre = [])
         \<or> (\<not> forceRefresh \<and> pre = [RCache archiveRestore, RCache manifestRestore]
            \<and> \<not> CacheOperationResult.success archiveRestore)"
  shows "let run = (\<lambda>steps. feed (processService cm svc prefix skipLatestCheck forceRefresh)
                              (RManifest (Some manifest) # pre @ steps));
             reported = (\<lambda>ok reason size.
               \<lparr>success = ok, restoredFromCache = False, imageName = image_str svc,
                cacheKey = generateCacheKey cm prefix name (imageTagOrLatest (image_str svc))
                             (ComposeService.platform svc) (Some imageDigest),
                digest = Some imageDigest, platform = ComposeService.platform svc,
                error = reason, imageSize = size\<rparr>)
         in (\<exists>t. run [RBool False]
                  = Some (reported False (Some (''Failed to pull image: '' @ image_str svc)) None, t)
                \<and> filter is_cache_save t = [])
          \<and> (optional_digest newManifest \<noteq> Some imageDigest \<longrightarrow>
               (\<exists>t. run [RBool True, RManifest newManifest]
                  = Some (reported False
                            (Some (''Digest mismatch for '' @ image_str svc @ '': expected ''
                                   @ imageDigest @ '', got ''
                                   @ template_str (optional_digest newManifest))) None, t)
                \<and> filter is_cache_save t = []))
          \<and> (optional_digest newManifest = Some imageDigest \<longrightarrow>
               (\<exists>t. run [RBool True, RManifest newManifest, RBool False]
                  = Some (reported False
                            (Some (''Failed to save image to tar: '' @ image_str svc)) None, t)
                \<and> filter is_cache_save t = []))
          \<and> (optional_digest newManifest = Some imageDigest \<longrightarrow>
               (\<exists>t. run [RBool True, RManifest newManifest, RBool True, RBool manifestSaved,
                         RCache archiveSaved, RMetadata info]
                  = Some (reported True None (map_option Size info), t)))"
  using assms(5,1,2,3,4)
  by (elim disjE conjE)
    (simp_all add: processService_def pullAndCacheImage_def gateway_defs Let_def)

theorem pull_and_cache_short_circuit_witness:
  "feed_result
     (processService example_module \<lparr>image_str = ''nginx:1.25'', platform = None\<rparr>
        ''docker-compose-image'' False True)
     [RManifest (Some \<lparr>DockerImageManifest.digest = Some ''sha256:aa''\<rparr>),
      RBool True,
      RManifest (Some \<lparr>DockerImageManifest.digest = Some ''sha256:aa''\<rparr>),
      RBool False] =
   Some \<lparr>success = False, restoredFromCache = False, imageName = ''nginx:1.25'',
          cacheKey = ''docker-compose-image-nginx-1.25-linux-amd64-none-aa'',
          digest = Some ''sha256:aa'', platform = None,
          error = Some ''Failed to save image to tar: nginx:1.25'', imageSize = None\<rparr>"
proof -
  have "\<exists>t. feed
          (processService example_module \<lparr>image_str = ''nginx:1.25'', platform = None\<rparr>
             ''docker-compose-image'' False True)
          [RManifest (Some \<lparr>DockerImageManifest.digest = Some ''sha256:aa''\<rparr>),
           RBool True,
           RManifest (Some \<lparr>DockerImageManifest.digest = Some ''sha256:aa''\<rparr>),
           RBool False] =
        Some (\<lparr>success = False, restoredFromCache = False, imageName = ''nginx:1.25'',
               cacheKey = ''docker-compose-image-nginx-1.25-linux-amd64-none-aa'',
               digest = Some ''sha256:aa'', platform = None,
               error = Some ''Failed to save image to tar: nginx:1.25'', imageSize = None\<rparr>, t)"
    using pull_and_cache_short_circuit
      [where svc = "\<lparr>image_str = ''nginx:1.25'', platform = None\<rparr>" and name = "''nginx''"
         and manifest = "\<lparr>DockerImageManifest.digest = Some ''sha256:aa''\<rparr>"
         and imageDigest = "''sha256:aa''"
         and cm = example_module and prefix = "''docker-compose-image''"
         and forceRefresh = True and skipLatestCheck = False and pre = "[]"
         and newManifest = "Some \<lparr>DockerImageManifest.digest = Some ''sha256:aa''\<rparr>"
         and manifestSaved = False
         and archiveSaved = "\<lparr>CacheOperationResult.success = False, cacheKey = None, error = None\<rparr>"
         and info = None]
    by (simp add: Let_def example_key_defs) blast
  then show ?thesis by (auto simp: feed_result_def)
qed

section \<open>A cache hit with a stale manifest\<close>

text \<open>
  Claim C1. On the path without forceRefresh, when the archive is restored, the restore
  of the manifest snapshot reports a matched key, the archive loads,
  skipDigestVerification is off and the digest of the cached manifest differs from the
  digest of a fresh remote manifest, processService pulls the image once and returns
  \<open>success = True\<close>, \<open>restoredFromCache = True\<close> with the digest resolved at the start,
  whether the pull succeeds or not. A failed pull is the warning that ends the run; no
  call saves anything to the cache.
\<close>

theorem cache_hit_digest_mismatch:
  assumes "imageNamePart (image_str svc) = Some name" and "name \<noteq> []"
    and "DockerImageManifest.digest manifest = Some imageDigest" and "imageDigest \<noteq> []"
    and "CacheOperationResult.success archiveRestore"
    and "truthy (CacheOperationResult.cacheKey manifestRestore)"
    and "DockerImageManifest.digest cached \<noteq> DockerImageManifest.digest remote"
  shows "\<exists>t. feed (processService cm svc prefix False False)
               [RManifest (Some manifest), RCache archiveRestore, RCache manifestRestore,
                RBool True, RMetadata info, RManifest (Some cached), RManifest (Some remote),
                RBool pullSuccess] =
          Some (\<lparr>success = True, restoredFromCache = True, imageName = image_str svc,
                 cacheKey = generateCacheKey cm prefix name (imageTagOrLatest (image_str svc))
                              (ComposeService.platform svc) (Some imageDigest),
                 digest = Some imageDigest, platform = ComposeService.platform svc,
                 error = None, imageSize = map_option Size info\<rparr>, t)
        \<and> filter is_pull t
            = [Called (PullImage (image_str svc) (ComposeService.platform svc)) (RBool pullSuccess)]
        \<and> filter is_cache_save t = []
        \<and> (\<not> pullSuccess \<longrightarrow>
             last t = Logged Warning (''Failed to pull updated image '' @ image_str svc))
        \<and> (pullSuccess \<longrightarrow> filter (\<lambda>e. \<exists>m. e = Logged Warning m) t = [])"
  using assms
  by (simp add: processService_def processCacheHit_def gateway_defs Let_def)

theorem cache_hit_digest_mismatch_witness:
  "feed_result
     (processService example_module \<lparr>image_str = ''nginx:1.25'', platform = None\<rparr>
        ''docker-compose-image'' False False)
     [RManifest (Some \<lparr>DockerImageManifest.digest = Some ''sha256:bb''\<rparr>),
      RCache \<lparr>CacheOperationResult.success = True,
               cacheKey = Some ''docker-compose-image-nginx-1.25-linux-amd64-none-bb'',
               error = None\<rparr>,
      RCache \<lparr>CacheOperationResult.success = True,
               cacheKey = Some ''docker-compose-image-nginx-1.25-linux-amd64-none-bb-manifest'',
               error = None\<rparr>,
      RBool True,
      RMetadata (Some \<lparr>Size = 1024\<rparr>),
      RManifest (Some \<lparr>DockerImageManifest.digest = Some ''sha256:bb''\<rparr>),
      RManifest (Some \<lparr>DockerImageManifest.digest = Some ''sha256:cc''\<rparr>),
      RBool False] =
   Some \<lparr>success = True, restoredFromCache = True, imageName = ''nginx:1.25'',
          cacheKey = ''docker-compose-image-nginx-1.25-linux-amd64-none-bb'',
          digest = Some ''sha256:bb'', platform = None, error = None, imageSize = Some 1024\<rparr>"
  using cache_hit_digest_mismatch
    [where svc = "\<lparr>image_str = ''nginx:1.25'', platform = None\<rparr>" and name = "''nginx''"
       and manifest = "\<lparr>DockerImageManifest.digest = Some ''sha256:bb''\<rparr>"
       and imageDigest = "''sha256:bb''"
       and cm = example_module and prefix = "''docker-compose-image''"
       and archiveRestore = "\<lparr>CacheOperationResult.success = True,
               cacheKey = Some ''docker-compose-image-nginx-1.25-linux-amd64-none-bb'',
               error = None\<rparr>"
       and manifestRestore = "\<lparr>CacheOperationResult.success = True,
               cacheKey = Some ''docker-compose-image-nginx-1.25-linux-amd64-none-bb-manifest'',
               error = None\<rparr>"
       and info = "Some \<lparr>Size = 1024\<rparr>"
       and cached = "\<lparr>DockerImageManifest.digest = Some ''sha256:bb''\<rparr>"
       and remote = "\<lparr>DockerImageManifest.digest = Some ''sha256:cc''\<rparr>"
       and pullSuccess = False]
  by (auto simp: feed_result_def example_defs)

section \<open>Termination\<close>

text \<open>
  Every request has a response of its type, so a computation that has not returned can
  be resumed, and every computation has a run that returns. A computation that
  finishes within \<open>n\<close> responses has no run on more than \<open>n\<close>. The bounds of the
  procedures are those of their longest paths: six calls in \<^verbatim>\<open>pullAndCacheImage\<close>,
  nine in processService (the remote inspection, the two restores and the six), and
  the two readings of the clock around it.
\<close>

lemma answers_ex: "\<exists>r. answers q r"
proof (cases q)
  case (InspectImageRemote n)
  then have "answers q (RManifest None)" by simp
  then show ?thesis ..
next
  case (PullImage n p)
  then have "answers q (RBool True)" by simp
  then show ?thesis ..
next
  case (SaveImageToTar n p)
  then have "answers q (RBool True)" by simp
  then show ?thesis ..
next
  case (LoadImageFromTar p)
  then have "answers q (RBool True)" by simp
  then show ?thesis ..
next
  case (InspectImageLocal n)
  then have "answers q (RMetadata None)" by simp
  then show ?thesis ..
next
  case (RestoreFromCache ps k rks)
  then have "answers q (RCache (the_cache (RBool False)))" by simp
  then show ?thesis ..
next
  case (SaveToCache ps k)
  then have "answers q (RCache (the_cache (RBool False)))" by simp
  then show ?thesis ..
next
  case (SaveManifestToCache m p k)
  then have "answers q (RBool True)" by simp
  then show ?thesis ..
next
  case (ReadManifestFromFile p)
  then have "answers q (RManifest None)" by simp
  then show ?thesis ..
next
  case PerformanceNow
  then have "answers q (RTime 0)" by simp
  then show ?thesis ..
qed

lemma settle_cases: "(\<exists>a. settle p = Done a) \<or> (\<exists>q k. settle p = Call q k)"
  by (induction p) simp_all

lemma can_resume: "outcome p = None \<Longrightarrow> \<exists>r q. resume p r = Some q"
  using settle_cases [of p] answers_ex
  by (auto simp: outcome_def resume_def)

lemma can_finish: "\<exists>rs a. feed_result p rs = Some a"
proof (induction p)
  case (Done a)
  have "feed_result (Done a) [] = Some a" by (simp add: feed_result_def)
  then show ?case by blast
next
  case (Log l m p)
  then obtain rs a where "feed_result p rs = Some a" by blast
  then have "feed_result (Log l m p) rs = Some a" by (auto simp: feed_result_def)
  then show ?case by blast
next
  case (Call q k)
  obtain r where r: "answers q r" using answers_ex by blast
  from Call.IH [OF rangeI, of r] obtain rs a where "feed_result (k r) rs = Some a" by blast
  with r have "feed_result (Call q k) (r # rs) = Some a" by (auto simp: feed_result_def)
  then show ?case by blast
qed

lemma finishes_within_bound:
  "finishes_within n p \<Longrightarrow> feed_result p rs = Some a \<Longrightarrow> length rs \<le> n"
proof (induction p arbitrary: n rs)
  case (Done x)
  then show ?case by (auto simp: feed_result_def split: list.splits)
next
  case (Log l m p)
  from Log.prems have "finishes_within n p" and "feed_result p rs = Some a"
    by (auto simp: feed_result_def)
  then show ?case by (rule Log.IH)
next
  case (Call q k)
  from Call.prems(2) obtain r rs' where rs: "rs = r # rs'" and r: "answers q r"
    and run: "feed_result (k r) rs' = Some a"
    by (auto simp: feed_result_def split: list.splits if_splits)
  from Call.prems(1) r have n: "0 < n" and fin: "finishes_within (n - 1) (k r)" by simp_all
  have "length rs' \<le> n - 1" by (rule Call.IH [OF rangeI fin run])
  with n rs show ?case by simp
qed

lemma pullAndCacheImage_finishes:
  "finishes_within 6 (pullAndCacheImage completeImageName platformString imageCacheKey
     manifestCacheKey imageTarPath manifestPath imageDigest manifest)"
  by (simp add: pullAndCacheImage_def gateway_defs Let_def)

lemma tryRestore_finishes:
  "finishes_within 3 (tryRestoreFromCacheWithoutDigest cm completeImageName imageNameWithoutTag
     imageTag plat cacheKeyPrefix)"
  by (simp add: tryRestoreFromCacheWithoutDigest_def gateway_defs Let_def)

lemma processCacheHit_finishes:
  "finishes_within 5 (processCacheHit completeImageName imageTarPath manifestPath
     manifestCacheHitKey skipLatestCheck imageDigest plat)"
  by (simp add: processCacheHit_def gateway_defs Let_def split: option.splits)

lemma processService_finishes:
  "finishes_within 9 (processService cm svc prefix skipLatestCheck forceRefresh)"
  by (simp add: processor_defs split: option.splits)

lemma serviceTask_finishes:
  "finishes_within 11 (serviceTask fmt cm prefix skipLatestCheck forceRefresh currentImage)"
  by (simp add: serviceTask_def processor_defs split: option.splits)

section \<open>The batch of images\<close>

text \<open>
  A sequence of deliveries that the batch accepts addresses promises of the batch only
  and holds, for each promise, no more responses than the promise can take; a batch
  that has not resolved has a promise that can be resumed.
\<close>

lemma deliveries_append:
  "deliveries ps (ds @ es) =
     (case deliveries ps ds of None \<Rightarrow> None | Some qs \<Rightarrow> deliveries qs es)"
  by (induction ds arbitrary: ps) (auto split: option.splits)

lemma all_outcomes_None:
  "all_outcomes ps = None \<Longrightarrow> \<exists>i<length ps. outcome (ps ! i) = None"
proof (induction ps)
  case Nil
  then show ?case by simp
next
  case (Cons p ps)
  show ?case
  proof (cases "outcome p")
    case None
    then have "outcome ((p # ps) ! 0) = None" by simp
    then show ?thesis by blast
  next
    case (Some a)
    with Cons.prems have "all_outcomes ps = None" by (auto split: option.splits)
    then obtain i where "i < length ps" and "outcome (ps ! i) = None" using Cons.IH by blast
    then have "Suc i < length (p # ps) \<and> outcome ((p # ps) ! Suc i) = None" by simp
    then show ?thesis by blast
  qed
qed

lemma deliveries_progress:
  assumes "deliveries ps ds = Some qs" and "all_outcomes qs = None"
  shows "\<exists>i<length ps. \<exists>r. deliveries ps (ds @ [(i, r)]) \<noteq> None"
proof -
  from assms(2) obtain i where i: "i < length qs" and "outcome (qs ! i) = None"
    using all_outcomes_None by blast
  then obtain r q where "resume (qs ! i) r = Some q" using can_resume by blast
  with assms(1) i have "deliveries ps (ds @ [(i, r)]) \<noteq> None"
    by (simp add: deliveries_append)
  moreover from assms(1) i have "i < length ps" by (simp add: deliveries_length)
  ultimately show ?thesis by blast
qed

lemma responses_for_bound:
  assumes "deliveries ps ds = Some qs" and "i < length ps" and "finishes_within n (ps ! i)"
  shows "length (responses_for i ds) \<le> n"
proof -
  from can_finish [of "qs ! i"] obtain rs a where "feed_result (qs ! i) rs = Some a"
    by (elim exE)
  with deliveries_feed [OF assms(1,2), of rs]
  have "feed_result (ps ! i) (responses_for i ds @ rs) = Some a" by simp
  with assms(3) have "length (responses_for i ds @ rs) \<le> n" by (rule finishes_within_bound)
  then show ?thesis by simp
qed

lemma deliveries_in_range:
  "deliveries ps ds = Some qs \<Longrightarrow> \<forall>d\<in>set ds. fst d < length ps"
proof (induction ds arbitrary: ps)
  case Nil
  then show ?case by simp
next
  case (Cons d ds)
  obtain j r where d: "d = (j, r)" by (cases d)
  from Cons.prems d obtain q where j: "j < length ps"
    and rest: "deliveries (ps[j := q]) ds = Some qs"
    by (auto split: option.splits if_splits)
  from Cons.IH [OF rest] j d show ?case by simp
qed

lemma length_by_target:
  assumes "\<forall>d\<in>set ds. fst d < n"
  shows "length ds = (\<Sum>i<n. length (responses_for i ds))"
  using assms
proof (induction ds)
  case Nil
  then show ?case by (simp add: responses_for_def)
next
  case (Cons d ds)
  obtain j r where d: "d = (j, r)" by (cases d)
  from Cons.prems d have j: "j < n" by simp
  have "(\<Sum>i<n. length (responses_for i (d # ds)))
        = (\<Sum>i<n. length (responses_for i ds) + (if i = j then 1 else 0))"
    by (rule sum.cong) (auto simp: d responses_for_Cons)
  also have "\<dots> = (\<Sum>i<n. length (responses_for i ds)) + (\<Sum>i<n. if i = j then 1 else 0)"
    by (simp add: sum.distrib)
  also from j have "(\<Sum>i<n. if i = j then 1 else 0) = (1::nat)" by simp
  finally show ?case using Cons by simp
qed

lemma deliveries_bound:
  assumes "deliveries ps ds = Some qs" and "\<forall>i<length ps. finishes_within n (ps ! i)"
  shows "length ds \<le> n * length ps"
proof -
  have "length ds = (\<Sum>i<length ps. length (responses_for i ds))"
    by (rule length_by_target) (rule deliveries_in_range [OF assms(1)])
  also have "\<dots> \<le> (\<Sum>i<length ps. n)"
    by (rule sum_mono) (use assms in \<open>auto intro: responses_for_bound\<close>)
  finally show ?thesis by (simp add: mult.commute)
qed

lemma serviceTask_imageName:
  "always (\<lambda>r. imageName r = image_str currentImage)
     (serviceTask fmt cm prefix skipLatestCheck forceRefresh currentImage)"
  unfolding serviceTask_def performance_now_def
  by (auto simp: always_await ServiceResult.defs
      intro: always_mono [OF processService_invariant])

text \<open>
  Claim C6. For every sequence of target images and every order in which the outside
  world completes the calls (the deliveries \<open>ds\<close>):
  \<^item> when the batch resolves, it resolves to exactly one outcome per image, the outcome
    at position \<open>i\<close> is the one of image \<open>i\<close> of the input, whatever the order of
    completion, and it is the outcome that the processing of image \<open>i\<close> alone
    returns on the responses that image \<open>i\<close> received, so that no response to another
    image and no outcome of another image, failed or not, changes it;
  \<^item> when every image's own processing comes to an end on its responses, with
    \<open>success = True\<close> or \<open>False\<close>, the batch resolves: no outcome aborts it;
  \<^item> it always comes to that: the processing of one image takes at most eleven
    responses, so a batch takes at most eleven per image, and as long as the batch has
    not resolved some image can be resumed.
\<close>

theorem batch_outcomes_by_position:
  "(serviceProcessingResults fmt cm prefix skipLatestCheck forceRefresh targetImages ds
      = Some results \<longrightarrow>
      length results = length targetImages
      \<and> (\<forall>i<length targetImages.
            imageName (results ! i) = image_str (targetImages ! i)
            \<and> feed_result
                 (serviceTask fmt cm prefix skipLatestCheck forceRefresh (targetImages ! i))
                 (responses_for i ds) = Some (results ! i)))
   \<and> ((\<forall>d\<in>set ds. fst d < length targetImages)
        \<and> (\<forall>i<length targetImages.
              feed_result
                (serviceTask fmt cm prefix skipLatestCheck forceRefresh (targetImages ! i))
                (responses_for i ds) \<noteq> None) \<longrightarrow>
        serviceProcessingResults fmt cm prefix skipLatestCheck forceRefresh targetImages ds
          \<noteq> None)
   \<and> (deliveries
         (map (serviceTask fmt cm prefix skipLatestCheck forceRefresh) targetImages) ds \<noteq> None
        \<longrightarrow>
        length ds \<le> 11 * length targetImages
        \<and> (serviceProcessingResults fmt cm prefix skipLatestCheck forceRefresh targetImages ds
             = None \<longrightarrow>
             (\<exists>i<length targetImages. \<exists>r.
                deliveries
                  (map (serviceTask fmt cm prefix skipLatestCheck forceRefresh) targetImages)
                  (ds @ [(i, r)]) \<noteq> None)))"
proof -
  let ?task = "serviceTask fmt cm prefix skipLatestCheck forceRefresh"
  let ?ps = "map ?task targetImages"
  have len: "length ?ps = length targetImages" by simp
  have nth: "\<And>i. i < length targetImages \<Longrightarrow> ?ps ! i = ?task (targetImages ! i)" by simp
  have first: "length results = length targetImages
      \<and> (\<forall>i<length targetImages.
            imageName (results ! i) = image_str (targetImages ! i)
            \<and> feed_result (?task (targetImages ! i)) (responses_for i ds) = Some (results ! i))"
    if run: "Promise_all ?ps ds = Some results"
  proof -
    from run obtain qs where qs: "deliveries ?ps ds = Some qs"
      by (auto simp: Promise_all_def split: option.splits)
    have range: "\<forall>d\<in>set ds. fst d < length ?ps" by (rule deliveries_in_range [OF qs])
    from run Promise_all_iff [OF range, of results]
    have l: "length results = length ?ps"
      and own: "\<forall>i<length ?ps. feed_result (?ps ! i) (responses_for i ds) = Some (results ! i)"
      by simp_all
    show ?thesis
    proof (intro conjI allI impI)
      from l show "length results = length targetImages" by simp
    next
      fix i assume i: "i < length targetImages"
      with own have f: "feed_result (?task (targetImages ! i)) (responses_for i ds) = Some (results ! i)"
        by simp
      then show "feed_result (?task (targetImages ! i)) (responses_for i ds) = Some (results ! i)" .
      from f obtain t where "feed (?task (targetImages ! i)) (responses_for i ds) = Some (results ! i, t)"
        by (auto simp: feed_result_def)
      with serviceTask_imageName show "imageName (results ! i) = image_str (targetImages ! i)"
        by (rule always_feed)
    qed
  qed
  have second: "Promise_all ?ps ds \<noteq> None"
    if range: "\<forall>d\<in>set ds. fst d < length targetImages"
      and own: "\<forall>i<length targetImages. feed_result (?task (targetImages ! i)) (responses_for i ds) \<noteq> None"
  proof -
    let ?ys = "map (\<lambda>i. the (feed_result (?ps ! i) (responses_for i ds))) [0..<length ?ps]"
    from range have r: "\<forall>d\<in>set ds. fst d < length ?ps" by simp
    from own have "length ?ys = length ?ps
      \<and> (\<forall>i<length ?ps. feed_result (?ps ! i) (responses_for i ds) = Some (?ys ! i))"
      by auto
    then have "Promise_all ?ps ds = Some ?ys" by (rule iffD2 [OF Promise_all_iff [OF r]])
    then show ?thesis by simp
  qed
  have third: "length ds \<le> 11 * length targetImages
      \<and> (Promise_all ?ps ds = None \<longrightarrow>
           (\<exists>i<length targetImages. \<exists>r. deliveries ?ps (ds @ [(i, r)]) \<noteq> None))"
    if acc: "deliveries ?ps ds \<noteq> None"
  proof -
    from acc obtain qs where qs: "deliveries ?ps ds = Some qs" by blast
    have "\<forall>i<length ?ps. finishes_within 11 (?ps ! i)" by (simp add: serviceTask_finishes)
    with qs have "length ds \<le> 11 * length ?ps" by (rule deliveries_bound)
    moreover have "\<exists>i<length targetImages. \<exists>r. deliveries ?ps (ds @ [(i, r)]) \<noteq> None"
      if "Promise_all ?ps ds = None"
    proof -
      from that qs have "all_outcomes qs = None" by (simp add: Promise_all_def)
      with qs have "\<exists>i<length ?ps. \<exists>r. deliveries ?ps (ds @ [(i, r)]) \<noteq> None"
        by (rule deliveries_progress)
      then show ?thesis by simp
    qed
    ultimately show ?thesis by simp
  qed
  from first second third show ?thesis
    unfolding serviceProcessingResults_def by blast
qed

theorem batch_outcomes_by_position_witness:
  "serviceProcessingResults (\<lambda>s e. ''elapsed'') example_module ''docker-compose-image'' True False
     [\<lparr>image_str = ''nginx:1.25'', platform = None\<rparr>,
      \<lparr>image_str = ''redis:7'', platform = None\<rparr>]
     [(0, RTime 0), (Suc 0, RTime 1), (Suc 0, RManifest None), (0, RManifest None),
      (Suc 0, RCache \<lparr>CacheOperationResult.success = True,
                        cacheKey = Some ''docker-compose-image-redis-7-linux-amd64-none-aabbccddeeff'',
                        error = None\<rparr>),
      (Suc 0, RBool True), (Suc 0, RMetadata (Some \<lparr>Size = 2048\<rparr>)), (Suc 0, RTime 7),
      (0, RCache \<lparr>CacheOperationResult.success = False, cacheKey = None, error = None\<rparr>),
      (0, RTime 9)] =
   Some [\<lparr>success = False, restoredFromCache = False, imageName = ''nginx:1.25'',
           cacheKey = [], digest = None, platform = None,
           error = Some ''Could not get digest for nginx:1.25'', imageSize = None,
           processingDuration = 9, humanReadableDuration = ''elapsed''\<rparr>,
         \<lparr>success = True, restoredFromCache = True, imageName = ''redis:7'',
           cacheKey = ''docker-compose-image-redis-7-linux-amd64-none-aabbccddeeff'',
           digest = None, platform = None, error = None, imageSize = Some 2048,
           processingDuration = 6, humanReadableDuration = ''elapsed''\<rparr>]
   \<and> feed_result
       (serviceTask (\<lambda>s e. ''elapsed'') example_module ''docker-compose-image'' True False
          \<lparr>image_str = ''redis:7'', platform = None\<rparr>)
       [RTime 1, RManifest None,
        RCache \<lparr>CacheOperationResult.success = True,
                 cacheKey = Some ''docker-compose-image-redis-7-linux-amd64-none-aabbccddeeff'',
                 error = None\<rparr>,
        RBool True, RMetadata (Some \<lparr>Size = 2048\<rparr>), RTime 7] =
     Some \<lparr>success = True, restoredFromCache = True, imageName = ''redis:7'',
            cacheKey = ''docker-compose-image-redis-7-linux-amd64-none-aabbccddeeff'',
            digest = None, platform = None, error = None, imageSize = Some 2048,
            processingDuration = 6, humanReadableDuration = ''elapsed''\<rparr>"
  (is "?run = Some ?results \<and> ?own")
proof -
  have run: "?run = Some ?results"
    by (simp add: serviceProcessingResults_def Promise_all_def resume_def outcome_def
        serviceTask_def processService_def tryRestoreFromCacheWithoutDigest_def gateway_defs
        Let_def imageNamePart_def imageTagOrLatest_def ServiceResult.defs
        TimedServiceResult.defs)
  from batch_outcomes_by_position
    [where fmt = "\<lambda>s e. ''elapsed''" and cm = example_module
       and prefix = "''docker-compose-image''" and skipLatestCheck = True
       and forceRefresh = False
       and targetImages = "[\<lparr>image_str = ''nginx:1.25'', platform = None\<rparr>,
                            \<lparr>image_str = ''redis:7'', platform = None\<rparr>]"
       and results = ?results]
    run
  have "\<forall>i<Suc (Suc 0).
          feed_result
            (serviceTask (\<lambda>s e. ''elapsed'') example_module ''docker-compose-image'' True False
               ([\<lparr>image_str = ''nginx:1.25'', platform = None\<rparr>,
                 \<lparr>image_str = ''redis:7'', platform = None\<rparr>] ! i))
            (responses_for i
               [(0, RTime 0), (Suc 0, RTime 1), (Suc 0, RManifest None), (0, RManifest None),
                (Suc 0, RCache \<lparr>CacheOperationResult.success = True,
                        cacheKey = Some ''docker-compose-image-redis-7-linux-amd64-none-aabbccddeeff'',
                        error = None\<rparr>),
                (Suc 0, RBool True), (Suc 0, RMetadata (Some \<lparr>Size = 2048\<rparr>)), (Suc 0, RTime 7),
                (0, RCache \<lparr>CacheOperationResult.success = False, cacheKey = None, error = None\<rparr>),
                (0, RTime 9)]) = Some (?results ! i)"
    by simp
  from this [rule_format, of "Suc 0"] have ?own by (simp add: responses_for_def)
  with run show ?thesis by simp
qed

end
